theory Spec2Isabelle
  imports Main "HOL-Library.Sublist"
begin

section \<open>Python strings\<close>

text \<open>
  Python's \<open>str(n)\<close> (and \<open>f"{n}"\<close>) for a non-negative integer: the decimal digits,
  most significant first, no leading zero.
\<close>

definition digit_char :: "nat \<Rightarrow> char" where
  "digit_char d = ''0123456789'' ! d"

function str_nat :: "nat \<Rightarrow> string" where
  "str_nat n = (if n < 10 then [digit_char n] else str_nat (n div 10) @ [digit_char (n mod 10)])"
  by pat_completeness auto
termination
  by (relation "measure id") auto

declare str_nat.simps [simp del]

text \<open>Python's \<open>sep.join(xs)\<close>.\<close>

fun str_join :: "string \<Rightarrow> string list \<Rightarrow> string" where
  "str_join sep [] = []"
| "str_join sep [x] = x"
| "str_join sep (x # y # ys) = x @ sep @ str_join sep (y # ys)"

text \<open>
  Python's \<open>s.split("\n")\<close>: the pieces between line feeds; a string without a line feed
  is one piece, the empty string included.
\<close>

fun split_lines :: "string \<Rightarrow> string list" where
  "split_lines [] = [[]]"
| "split_lines (c # cs) =
     (if c = CHR 0x0A then [] # split_lines cs
      else (case split_lines cs of [] \<Rightarrow> [[c]] | l # ls \<Rightarrow> (c # l) # ls))"

section \<open>The component example (bot/example.py)\<close>

subsection \<open>Data\<close>

record SelectOption =
  label :: string
  "value" :: string

text \<open>\<open>SELECT_OPTIONS\<close>: the options Value1, Value2, Value3 (\<open>range(1, 4)\<close>).\<close>

definition SELECT_OPTIONS :: "SelectOption list" where
  "SELECT_OPTIONS =
     map (\<lambda>x. \<lparr>label = ''Value'' @ str_nat x, value = ''Value'' @ str_nat x\<rparr>) [1..<4]"

record Embed =
  title :: string
  description :: string

definition make_embed :: "string \<Rightarrow> Embed" where
  "make_embed t = \<lparr>title = ''Component Example'', description = t\<rparr>"

datatype ButtonStyle = red | green | blurple

record MyButton =
  name :: string
  style :: ButtonStyle

text \<open>
  The items a view can hold: the dropdown that the \<open>ui.select\<close> decorator declares, and
  buttons. Python compares items by identity; the three buttons of a view carry three
  different names, so equality of the records below decides the same membership tests.
\<close>

datatype item = Select "SelectOption list" | Button MyButton

text \<open>
  \<open>ComponentView\<close>: the accumulated text, the items attached to the view (\<open>children\<close>, in
  the order they were added), and the three buttons the constructor creates and holds
  without attaching them.
\<close>

record ComponentView =
  "text" :: string
  children :: "item list"
  button1 :: MyButton
  button2 :: MyButton
  button3 :: MyButton

text \<open>What a handler sends back through \<open>interaction.response\<close>.\<close>

datatype response =
    send_message Embed "item list"
  | edit_message Embed "item list"
  | send_modal string

subsection \<open>Operations\<close>

text \<open>
  \<open>ComponentView.__init__\<close>: the base class attaches the decorated dropdown; the text is
  empty; the buttons are created but not added.
\<close>

definition ComponentView_init :: ComponentView where
  "ComponentView_init =
     \<lparr>text = [],
      children = [Select SELECT_OPTIONS],
      button1 = \<lparr>name = ''Button1'', style = red\<rparr>,
      button2 = \<lparr>name = ''Button2'', style = green\<rparr>,
      button3 = \<lparr>name = ''Button3'', style = blurple\<rparr>\<rparr>"

text \<open>
  \<open>View.add_item\<close> of the platform library appends the item to the children. (Its limit
  of 25 items is out of reach for a view of one dropdown and three buttons.)
\<close>

definition add_item :: "item \<Rightarrow> ComponentView \<Rightarrow> ComponentView" where
  "add_item i v = v\<lparr>children := children v @ [i]\<rparr>"

definition add_button_to_view :: "MyButton \<Rightarrow> ComponentView \<Rightarrow> ComponentView" where
  "add_button_to_view button v =
     (if Button button \<notin> set (children v) then add_item (Button button) v else v)"

definition dropdown_selected :: "string list \<Rightarrow> ComponentView \<Rightarrow> ComponentView \<times> response" where
  "dropdown_selected select_values v =
     (let values = str_join '', '' select_values;
          v1 = v\<lparr>text := values @ '' selected in select option''\<rparr>;
          v2 = add_button_to_view (button1 v1) v1;
          v3 = add_button_to_view (button2 v2) v2;
          v4 = add_button_to_view (button3 v3) v3
      in (v4, edit_message (make_embed (text v4)) (children v4)))"

text \<open>\<open>MyButton.callback\<close>, on the view the button is attached to.\<close>

definition callback :: "MyButton \<Rightarrow> ComponentView \<Rightarrow> ComponentView \<times> response" where
  "callback b v =
     (v\<lparr>text := text v @ [CHR 0x0A] @ '' '' @ name b @ '' was pressed!''\<rparr>,
      send_modal ''Enter a value'')"

text \<open>\<open>MyModal.on_submit\<close>, on the view the modal refers to, with the text entered.\<close>

definition on_submit :: "string \<Rightarrow> ComponentView \<Rightarrow> ComponentView \<times> response" where
  "on_submit val v =
     (let v1 = v\<lparr>text := text v @ [CHR 0x0A] @ '' Modal was called and value entered is '' @ val\<rparr>
      in (v1, edit_message (make_embed (text v1)) (children v1)))"

text \<open>\<open>ExampleCog.start_cmd\<close>: a fresh view, sent with the opening embed.\<close>

definition start_cmd :: "ComponentView \<times> response" where
  "start_cmd =
     (let v = ComponentView_init
      in (v, send_message (make_embed ''Please choose an option to start'') (children v)))"

subsection \<open>The interaction state machine\<close>

text \<open>
  The three events the platform delivers to a view, and the transition each one causes:
  the state after the handler has run.
\<close>

datatype event = select "string list" | press MyButton | submit_modal string

fun step :: "ComponentView \<Rightarrow> event \<Rightarrow> ComponentView" where
  "step v (select vs) = fst (dropdown_selected vs v)"
| "step v (press b) = fst (callback b v)"
| "step v (submit_modal val) = fst (on_submit val v)"

text \<open>
  The platform only delivers a press for a button that is attached to the view (before
  \<open>add_item\<close> a button has no view, and its callback cannot run). \<open>run\<close> delivers a
  sequence of events from a given state; \<open>None\<close> when one of them cannot be delivered.
\<close>

fun deliver :: "ComponentView \<Rightarrow> event \<Rightarrow> ComponentView option" where
  "deliver v (press b) = (if Button b \<in> set (children v) then Some (step v (press b)) else None)"
| "deliver v e = Some (step v e)"

fun run :: "ComponentView \<Rightarrow> event list \<Rightarrow> ComponentView option" where
  "run v [] = Some v"
| "run v (e # es) = (case deliver v e of None \<Rightarrow> None | Some v' \<Rightarrow> run v' es)"

subsection \<open>Observations\<close>

text \<open>
  \<open>text_log\<close>: the lines of the view's text, of which the text is the join with line
  feeds; the empty text is the empty log. \<open>attached_widgets\<close>: the buttons among the
  children (the dropdown is always there).
\<close>

definition text_log :: "ComponentView \<Rightarrow> string list" where
  "text_log v = (if text v = [] then [] else split_lines (text v))"

fun buttons_of :: "item list \<Rightarrow> MyButton list" where
  "buttons_of [] = []"
| "buttons_of (Select opts # is) = buttons_of is"
| "buttons_of (Button b # is) = b # buttons_of is"

definition attached_widgets :: "ComponentView \<Rightarrow> MyButton set" where
  "attached_widgets v = set (buttons_of (children v))"

text \<open>
  The shape of a view that \<open>ComponentView.__init__\<close> built: its three buttons are the
  constructor's, and its children are the dropdown alone or the dropdown followed by
  the three buttons.
\<close>

definition view_ok :: "ComponentView \<Rightarrow> bool" where
  "view_ok v =
     (button1 v = button1 ComponentView_init \<and>
      button2 v = button2 ComponentView_init \<and>
      button3 v = button3 ComponentView_init \<and>
      children v \<in> {children ComponentView_init,
                     children ComponentView_init @
                       [Button (button1 ComponentView_init),
                        Button (button2 ComponentView_init),
                        Button (button3 ComponentView_init)]})"

section \<open>Exceptions\<close>

text \<open>
  The exceptions the modelled code raises or meets. \<open>HTTPException\<close> stands for the
  platform library's class and its subclasses, which \<open>except discord.HTTPException\<close>
  catches; \<open>MissingApplicationID\<close> is an error of \<open>tree.sync\<close> outside that class.
\<close>

datatype exception =
    MissingConfigurationException string
  | ValueError
  | KeyError string
  | HTTPException
  | MissingApplicationID

section \<open>The configuration loader (bot/__main__.py, main.py)\<close>

text \<open>
  A declared type, as far as \<open>assert_envs_exist\<close> uses it: what \<open>f"{t}"\<close> prints, and the
  exception that calling \<open>t(value)\<close> on a string raises, if any. \<open>str\<close> of a string
  returns the string and raises nothing.
\<close>

record py_type =
  type_repr :: string
  raises :: "string \<Rightarrow> exception option"

definition py_str :: py_type where
  "py_str = \<lparr>type_repr = ''<class '' @ [CHR 0x27] @ ''str'' @ [CHR 0x27] @ ''>'',
             raises = (\<lambda>v. None)\<rparr>"

definition envs :: "(string \<times> string \<times> py_type) list" where
  "envs = [(''TOKEN'', ''The Bot Token'', py_str)]"

text \<open>
  The loop of \<open>assert_envs_exist\<close> over the declared entries; the environment is a map
  from variable names to strings (\<open>os.environ.get\<close>). Only \<open>ValueError\<close> is caught and
  turned into a \<open>MissingConfigurationException\<close>.
\<close>

fun assert_envs :: "(string \<times> string \<times> py_type) list \<Rightarrow> (string \<rightharpoonup> string) \<Rightarrow> exception + unit" where
  "assert_envs [] env = Inr ()"
| "assert_envs ((e0, e1, e2) # es) env =
     (let ident = e0 @ ''/'' @ e1 in
      case env e0 of
        None \<Rightarrow> Inl (MissingConfigurationException (ident @ '' needs to be- defined''))
      | Some val \<Rightarrow>
          (case raises e2 val of
             Some ValueError \<Rightarrow>
               Inl (MissingConfigurationException
                      (ident @ '' is not the required type of '' @ type_repr e2))
           | Some ex \<Rightarrow> Inl ex
           | None \<Rightarrow> assert_envs es env))"

definition assert_envs_exist :: "(string \<rightharpoonup> string) \<Rightarrow> exception + unit" where
  "assert_envs_exist env = assert_envs envs env"



section \<open>The sync command (main.py)\<close>

text \<open>
  The command tree of the platform library is a parameter: its operations act on a
  platform state \<open>'p\<close>. \<open>tree_sync\<close> takes the guild (\<open>None\<close>: global) and returns the
  synced commands or raises. A guild is its id.
\<close>

type_synonym guild = nat

record 'p CommandTree =
  tree_sync :: "guild option \<Rightarrow> 'p \<Rightarrow> (exception + string list) \<times> 'p"
  copy_global_to :: "guild \<Rightarrow> 'p \<Rightarrow> 'p"
  clear_commands :: "guild \<Rightarrow> 'p \<Rightarrow> 'p"

datatype spec = Tilde | Star | Caret

text \<open>
  What a run of the command did: the calls of \<open>tree.sync\<close> it made, in order, each with
  its outcome; the message it sent with \<open>ctx.send\<close>, or the exception that left the
  command; the platform state afterwards.
\<close>

type_synonym attempt = "guild option \<times> (exception + string list)"

text \<open>
  The loop over an explicit list of guilds: an \<open>HTTPException\<close> is passed over, any
  other exception leaves the loop, a success adds one to \<open>ret\<close>.
\<close>

fun sync_guilds :: "'p CommandTree \<Rightarrow> guild list \<Rightarrow> nat \<Rightarrow> 'p \<Rightarrow> attempt list \<times> (exception + nat) \<times> 'p" where
  "sync_guilds tree [] ret p = ([], Inr ret, p)"
| "sync_guilds tree (g # gs) ret p =
     (case tree_sync tree (Some g) p of
        (Inl ex, p') \<Rightarrow>
          (if ex = HTTPException then
             (case sync_guilds tree gs ret p' of
                (tr, r, p'') \<Rightarrow> ((Some g, Inl ex) # tr, r, p''))
           else ([(Some g, Inl ex)], Inl ex, p'))
      | (Inr cmds, p') \<Rightarrow>
          (case sync_guilds tree gs (ret + 1) p' of
             (tr, r, p'') \<Rightarrow> ((Some g, Inr cmds) # tr, r, p'')))"

definition synced_message :: "nat \<Rightarrow> spec option \<Rightarrow> string" where
  "synced_message n sp =
     ''Synced '' @ str_nat n @ '' commands '' @
     (if sp = None then ''globally'' else ''to the current guild.'')"

text \<open>
  One unguarded \<open>await ctx.bot.tree.sync(...)\<close> of the branch without guilds, followed by
  the message about \<open>count synced\<close> commands.
\<close>

definition sync_once :: "'p CommandTree \<Rightarrow> guild option \<Rightarrow> (string list \<Rightarrow> nat) \<Rightarrow> spec option \<Rightarrow> 'p \<Rightarrow> attempt list \<times> (exception + string) \<times> 'p" where
  "sync_once tree g count sp p =
     (case tree_sync tree g p of
        (Inl ex, p') \<Rightarrow> ([(g, Inl ex)], Inl ex, p')
      | (Inr cmds, p') \<Rightarrow> ([(g, Inr cmds)], Inr (synced_message (count cmds) sp), p'))"

text \<open>
  \<open>CoreCog.sync\<close>, called in the guild \<open>ctx_guild\<close> (the decorators let the body run
  only for the owner and inside a guild).
\<close>

definition sync :: "'p CommandTree \<Rightarrow> guild \<Rightarrow> guild list \<Rightarrow> spec option \<Rightarrow> 'p \<Rightarrow> attempt list \<times> (exception + string) \<times> 'p" where
  "sync tree ctx_guild guilds sp p =
     (if guilds = [] then
        (case sp of
           Some Tilde \<Rightarrow> sync_once tree (Some ctx_guild) length sp p
         | Some Star \<Rightarrow>
             sync_once tree (Some ctx_guild) length sp (copy_global_to tree ctx_guild p)
         | Some Caret \<Rightarrow>
             sync_once tree (Some ctx_guild) (\<lambda>cmds. 0) sp (clear_commands tree ctx_guild p)
         | None \<Rightarrow> sync_once tree None length sp p)
      else
        (case sync_guilds tree guilds 0 p of
           (tr, Inl ex, p') \<Rightarrow> (tr, Inl ex, p')
         | (tr, Inr ret, p') \<Rightarrow>
             (tr,
              Inr (''Synced the tree to '' @ str_nat ret @ ''/'' @ str_nat (length guilds) @ ''.''),
              p')))"



section \<open>Properties of the strings\<close>

lemma split_lines_not_Nil: "split_lines s \<noteq> []"
  by (induction s) (auto split: list.splits)

lemma split_lines_no_newline: "CHR 0x0A \<notin> set s \<Longrightarrow> split_lines s = [s]"
  by (induction s) auto

lemma split_lines_append_newline:
  "split_lines (a @ CHR 0x0A # b) = split_lines a @ split_lines b"
proof (induction a)
  case Nil
  show ?case by simp
next
  case (Cons c a)
  obtain l ls where "split_lines a = l # ls"
    using split_lines_not_Nil [of a] by (cases "split_lines a") auto
  with Cons show ?case by simp
qed

lemma split_lines_append_line:
  assumes "CHR 0x0A \<notin> set l"
  shows "split_lines (t @ CHR 0x0A # l) = split_lines t @ [l]"
  using assms by (simp add: split_lines_append_newline split_lines_no_newline)

lemma str_join_no_newline:
  "\<forall>s \<in> set xs. CHR 0x0A \<notin> set s \<Longrightarrow> CHR 0x0A \<notin> set sep \<Longrightarrow>
   CHR 0x0A \<notin> set (str_join sep xs)"
  by (induction sep xs rule: str_join.induct) auto

lemma option_values: "map value SELECT_OPTIONS = [''Value1'', ''Value2'', ''Value3'']"
  by code_simp

section \<open>Properties of the handlers\<close>

lemmas handler_defs = start_cmd_def ComponentView_init_def dropdown_selected_def callback_def
  on_submit_def add_button_to_view_def add_item_def text_log_def attached_widgets_def Let_def

lemma text_select:
  "text (step v (select vs)) = str_join '', '' vs @ '' selected in select option''"
  by (simp add: dropdown_selected_def add_button_to_view_def add_item_def Let_def)

lemma text_press:
  "text (step v (press b)) = text v @ CHR 0x0A # '' '' @ name b @ '' was pressed!''"
  by (simp add: callback_def)

lemma text_submit:
  "text (step v (submit_modal val)) =
     text v @ CHR 0x0A # '' Modal was called and value entered is '' @ val"
  by (simp add: on_submit_def Let_def)

lemma children_press: "children (step v (press b)) = children v"
  by (simp add: callback_def)

lemma children_submit: "children (step v (submit_modal val)) = children v"
  by (simp add: on_submit_def Let_def)

lemma buttons_step:
  "button1 (step v e) = button1 v \<and> button2 (step v e) = button2 v \<and>
   button3 (step v e) = button3 v"
  by (cases e)
    (simp_all add: callback_def on_submit_def Let_def dropdown_selected_def
      add_button_to_view_def add_item_def)

text \<open>The children after a selection: each missing button is appended, in order.\<close>

lemma children_select:
  "children (step v (select vs)) =
     (let c1 = children v @
                 (if Button (button1 v) \<in> set (children v) then [] else [Button (button1 v)]);
          c2 = c1 @ (if Button (button2 v) \<in> set c1 then [] else [Button (button2 v)])
      in c2 @ (if Button (button3 v) \<in> set c2 then [] else [Button (button3 v)]))"
  by (simp add: dropdown_selected_def add_button_to_view_def add_item_def Let_def)

lemma prefix_children_step: "prefix (children v) (children (step v e))"
  by (cases e)
    (simp_all add: children_select children_press children_submit Let_def del: step.simps)

lemma set_buttons_of: "set (buttons_of xs) = {b. Button b \<in> set xs}"
  by (induction xs rule: buttons_of.induct) auto

lemma attached_mono_step: "attached_widgets v \<subseteq> attached_widgets (step v e)"
  using prefix_children_step [of v e]
  by (auto simp add: attached_widgets_def set_buttons_of prefix_def simp del: step.simps)

lemma known_attached_after_select:
  "{button1 v, button2 v, button3 v} \<subseteq> attached_widgets (step v (select vs))"
  by (auto simp add: attached_widgets_def set_buttons_of children_select Let_def
      simp del: step.simps)

lemma add_button_to_view_idem:
  "add_button_to_view b (add_button_to_view b v) = add_button_to_view b v"
  by (simp add: add_button_to_view_def add_item_def)

lemma children_select_twice:
  "children (step (step v (select a)) (select b)) = children (step v (select a))"
proof -
  let ?w = "step v (select a)"
  have bs: "button1 ?w = button1 v" "button2 ?w = button2 v" "button3 ?w = button3 v"
    using buttons_step [of v "select a"] by simp_all
  have "Button (button1 v) \<in> set (children ?w)" "Button (button2 v) \<in> set (children ?w)"
    "Button (button3 v) \<in> set (children ?w)"
    by (auto simp add: children_select Let_def simp del: step.simps)
  then show ?thesis
    using bs by (subst children_select) (simp add: Let_def del: step.simps)
qed

lemma text_log_press_prefix: "prefix (text_log v) (text_log (step v (press b)))"
  by (simp add: text_log_def text_press split_lines_append_newline del: step.simps)

lemma text_log_submit_prefix: "prefix (text_log v) (text_log (step v (submit_modal val)))"
  by (simp add: text_log_def text_submit split_lines_append_newline del: step.simps)

lemma text_log_select:
  assumes "\<forall>s \<in> set vs. CHR 0x0A \<notin> set s"
  shows "text_log (step v (select vs)) = [str_join '', '' vs @ '' selected in select option'']"
proof -
  have "CHR 0x0A \<notin> set (str_join '', '' vs)"
    using assms by (intro str_join_no_newline) auto
  then have "CHR 0x0A \<notin> set (str_join '', '' vs @ '' selected in select option'')"
    by simp
  then show ?thesis
    by (simp add: text_log_def text_select split_lines_no_newline del: step.simps)
qed

subsection \<open>The shape of a view is kept\<close>

lemma view_ok_init: "view_ok ComponentView_init"
  by (simp add: view_ok_def)

lemma view_ok_step: "view_ok v \<Longrightarrow> view_ok (step v e)"
  unfolding view_ok_def
  by (cases e)
    (auto simp add: buttons_step children_select children_press children_submit Let_def
      ComponentView_init_def simp del: step.simps)

lemma deliver_step: "deliver v e = Some v' \<Longrightarrow> v' = step v e"
  by (cases e) (auto split: if_splits)

lemma view_ok_run: "view_ok v \<Longrightarrow> run v evs = Some v' \<Longrightarrow> view_ok v'"
proof (induction evs arbitrary: v)
  case Nil
  then show ?case by simp
next
  case (Cons e evs)
  from Cons.prems(2) obtain v1 where d: "deliver v e = Some v1" and r: "run v1 evs = Some v'"
    by (auto split: option.splits)
  from d have "v1 = step v e" by (rule deliver_step)
  with Cons.prems(1) have "view_ok v1" by (simp add: view_ok_step del: step.simps)
  with r show ?case by (rule Cons.IH [rotated])
qed

text \<open>
  Presses delivered to a view of that shape whose text is not empty: each adds one line,
  since the names of the attached buttons hold no line feed.
\<close>

lemma presses_add_lines:
  "view_ok v \<Longrightarrow> text v \<noteq> [] \<Longrightarrow> run v (map press bs) = Some v' \<Longrightarrow>
   length (text_log v') = length (text_log v) + length bs"
proof (induction bs arbitrary: v)
  case Nil
  then show ?case by simp
next
  case (Cons b bs)
  from Cons.prems(3) have att: "Button b \<in> set (children v)"
    and r: "run (step v (press b)) (map press bs) = Some v'"
    by (auto split: if_splits simp del: step.simps)
  from att Cons.prems(1) have "CHR 0x0A \<notin> set (name b)"
    by (auto simp add: view_ok_def ComponentView_init_def)
  then have nl: "CHR 0x0A \<notin> set ('' '' @ name b @ '' was pressed!'')"
    by simp
  have t: "text (step v (press b)) \<noteq> []"
    by (simp add: text_press del: step.simps)
  have "text_log (step v (press b)) = text_log v @ ['' '' @ name b @ '' was pressed!'']"
    using Cons.prems(2) split_lines_append_line [OF nl, of "text v"]
    by (simp add: text_log_def text_press del: step.simps)
  then have l: "length (text_log (step v (press b))) = length (text_log v) + 1"
    by simp
  have "view_ok (step v (press b))"
    using Cons.prems(1) by (rule view_ok_step)
  from Cons.IH [OF this t r] l show ?case by simp
qed

section \<open>The interaction state machine: end to end, log and widgets\<close>

text \<open>
  C1. The view that \<open>start\<close> creates has an empty text, an empty log and no button
  attached. After \<open>select ["Value1", "Value2"]\<close> the log is the one line
  "Value1, Value2 selected in select option" and the three buttons Button1, Button2,
  Button3 are attached. A press of Button1 then adds a second line, which is
  " Button1 was pressed!": the handler writes one space after the line feed, so the
  line starts with that space. A submission of "hello" then adds a third line,
  " Modal was called and value entered is hello", which contains "hello".
\<close>

theorem C1_end_to_end:
  "text (fst start_cmd) = [] \<and>
   text_log (fst start_cmd) = [] \<and>
   attached_widgets (fst start_cmd) = {} \<and>
   (let v1 = step (fst start_cmd) (select [''Value1'', ''Value2'']);
        v2 = step v1 (press (button1 v1));
        v3 = step v2 (submit_modal ''hello'')
    in text_log v1 = [''Value1, Value2 selected in select option''] \<and>
       attached_widgets v1 =
         {\<lparr>name = ''Button1'', style = red\<rparr>, \<lparr>name = ''Button2'', style = green\<rparr>,
          \<lparr>name = ''Button3'', style = blurple\<rparr>} \<and>
       name (button1 v1) = ''Button1'' \<and>
       text_log v2 = [''Value1, Value2 selected in select option'', '' Button1 was pressed!''] \<and>
       length (text_log v3) = 3 \<and>
       take 2 (text_log v3) = text_log v2 \<and>
       text_log v3 ! 2 = '' Modal was called and value entered is hello'' \<and>
       sublist ''hello'' (text_log v3 ! 2))"
proof -
  have "sublist ''hello'' ('' Modal was called and value entered is '' @ ''hello'')"
    by (rule sublist_append_leftI)
  then show ?thesis
    by (simp add: handler_defs)
qed

text \<open>
  C1, as first stated: the second line after the press of Button1 is not
  "Button1 was pressed!" itself; it carries the leading space.
\<close>

theorem C1_second_line_counterexample:
  "text_log (step (step (fst start_cmd) (select [''Value1'', ''Value2'']))
               (press \<lparr>name = ''Button1'', style = red\<rparr>)) ! 1
     \<noteq> ''Button1 was pressed!''"
  by (simp add: handler_defs)

text \<open>
  C2. A press and a modal submission never remove lines: the log before the transition
  is a prefix of the log after it, so its length does not go down. A selection is the
  exception the handler makes on purpose (it is the beginning of the chain): it
  replaces the whole text by the selection line, whatever had been accumulated.
\<close>

theorem C2_press_submit_keep_lines:
  "prefix (text_log v) (text_log (step v (press b))) \<and>
   prefix (text_log v) (text_log (step v (submit_modal val))) \<and>
   length (text_log v) \<le> length (text_log (step v (press b))) \<and>
   length (text_log v) \<le> length (text_log (step v (submit_modal val))) \<and>
   text (step v (select vs)) = str_join '', '' vs @ '' selected in select option''"
  using text_log_press_prefix [of v b] text_log_submit_prefix [of v val] text_select [of v vs]
  by (simp add: prefix_length_le del: step.simps)

text \<open>
  C2, as first stated for every transition: after a selection and a press the log has
  two lines, and a second selection leaves one.
\<close>

theorem C2_select_counterexample:
  "run ComponentView_init [select [''Value1''], press \<lparr>name = ''Button1'', style = red\<rparr>]
     = Some (step (step ComponentView_init (select [''Value1'']))
               (press \<lparr>name = ''Button1'', style = red\<rparr>)) \<and>
   length (text_log (step (step (step ComponentView_init (select [''Value1'']))
               (press \<lparr>name = ''Button1'', style = red\<rparr>)) (select [''Value2''])))
     < length (text_log (step (step ComponentView_init (select [''Value1'']))
               (press \<lparr>name = ''Button1'', style = red\<rparr>)))"
  by (simp add: handler_defs)

text \<open>
  C3. In any state of the view, a selection sets the text to the selected values joined
  by ", " followed by " selected in select option", and afterwards the view's three
  buttons are attached. For values of the declared options (Value1, Value2, Value3)
  that text is one line, so the log is exactly that line.
\<close>

theorem C3_select_resets_and_attaches:
  "text (step v (select vs)) = str_join '', '' vs @ '' selected in select option'' \<and>
   {button1 v, button2 v, button3 v} \<subseteq> attached_widgets (step v (select vs)) \<and>
   (set vs \<subseteq> set (map value SELECT_OPTIONS) \<longrightarrow>
      text_log (step v (select vs)) = [str_join '', '' vs @ '' selected in select option''])"
proof -
  have "text_log (step v (select vs)) = [str_join '', '' vs @ '' selected in select option'']"
    if "set vs \<subseteq> set (map value SELECT_OPTIONS)"
  proof -
    have "\<forall>s \<in> set vs. CHR 0x0A \<notin> set s"
      using that unfolding option_values by auto
    then show ?thesis by (rule text_log_select)
  qed
  then show ?thesis
    using known_attached_after_select [of v vs] text_select [of v vs]
    by (simp del: step.simps)
qed

text \<open>
  C3 at a state reached by a selection and a press, with the values Value3 and Value1.
\<close>

theorem C3_witness:
  "set [''Value3'', ''Value1''] \<subseteq> set (map value SELECT_OPTIONS) \<and>
   text_log (step (step (step ComponentView_init (select [''Value2'']))
                     (press \<lparr>name = ''Button2'', style = green\<rparr>))
               (select [''Value3'', ''Value1'']))
     = [''Value3, Value1 selected in select option''] \<and>
   {\<lparr>name = ''Button1'', style = red\<rparr>, \<lparr>name = ''Button2'', style = green\<rparr>,
    \<lparr>name = ''Button3'', style = blurple\<rparr>}
     \<subseteq> attached_widgets (step (step (step ComponentView_init (select [''Value2'']))
                     (press \<lparr>name = ''Button2'', style = green\<rparr>))
               (select [''Value3'', ''Value1'']))"
proof -
  let ?v = "step (step ComponentView_init (select [''Value2'']))
              (press \<lparr>name = ''Button2'', style = green\<rparr>)"
  have h: "set [''Value3'', ''Value1''] \<subseteq> set (map value SELECT_OPTIONS)"
    unfolding option_values by simp
  have b: "button1 ?v = \<lparr>name = ''Button1'', style = red\<rparr>"
    "button2 ?v = \<lparr>name = ''Button2'', style = green\<rparr>"
    "button3 ?v = \<lparr>name = ''Button3'', style = blurple\<rparr>"
    by (simp_all add: buttons_step ComponentView_init_def del: step.simps)
  show ?thesis
    using h C3_select_resets_and_attaches [of ?v "[''Value3'', ''Value1'']"]
    unfolding b by (simp del: step.simps)
qed

text \<open>
  C4. In every state that a sequence of deliverable events reaches from a fresh view,
  the attached buttons are among Button1, Button2, Button3 (at most three, beside the
  one dropdown), no item is attached twice, adding a button a second time changes
  nothing, a second selection changes no children, and no transition removes an item:
  the children before a transition are a prefix of the children after it.
\<close>

theorem C4_widgets_bounded_idempotent_monotone:
  assumes "run ComponentView_init evs = Some v"
  shows "attached_widgets v \<subseteq>
           {\<lparr>name = ''Button1'', style = red\<rparr>, \<lparr>name = ''Button2'', style = green\<rparr>,
            \<lparr>name = ''Button3'', style = blurple\<rparr>} \<and>
         card (attached_widgets v) \<le> 3 \<and>
         length (children v) \<le> 4 \<and>
         distinct (children v) \<and>
         add_button_to_view b (add_button_to_view b v) = add_button_to_view b v \<and>
         children (step (step v (select a)) (select a')) = children (step v (select a)) \<and>
         prefix (children v) (children (step v e)) \<and>
         attached_widgets v \<subseteq> attached_widgets (step v e)"
proof -
  have ok: "view_ok v"
    using view_ok_init assms by (rule view_ok_run)
  have sub: "attached_widgets v \<subseteq>
           {\<lparr>name = ''Button1'', style = red\<rparr>, \<lparr>name = ''Button2'', style = green\<rparr>,
            \<lparr>name = ''Button3'', style = blurple\<rparr>}"
    using ok by (auto simp add: view_ok_def attached_widgets_def ComponentView_init_def)
  have "card (attached_widgets v) \<le> card
           {\<lparr>name = ''Button1'', style = red\<rparr>, \<lparr>name = ''Button2'', style = green\<rparr>,
            \<lparr>name = ''Button3'', style = blurple\<rparr>}"
    using sub by (intro card_mono) auto
  then have c: "card (attached_widgets v) \<le> 3" by simp
  have d: "distinct (children v) \<and> length (children v) \<le> 4"
    using ok by (auto simp add: view_ok_def ComponentView_init_def)
  show ?thesis
    using sub c d add_button_to_view_idem [of b v] children_select_twice [of v a a']
      prefix_children_step [of v e] attached_mono_step [of v e]
    by (simp del: step.simps)
qed

text \<open>C4 at the state after a selection, a press of Button3 and a second selection.\<close>

theorem C4_witness:
  "run ComponentView_init
     [select [''Value1''], press \<lparr>name = ''Button3'', style = blurple\<rparr>, select [''Value2'']]
     = Some (step (step (step ComponentView_init (select [''Value1'']))
                (press \<lparr>name = ''Button3'', style = blurple\<rparr>)) (select [''Value2''])) \<and>
   attached_widgets (step (step (step ComponentView_init (select [''Value1'']))
                (press \<lparr>name = ''Button3'', style = blurple\<rparr>)) (select [''Value2'']))
     = {\<lparr>name = ''Button1'', style = red\<rparr>, \<lparr>name = ''Button2'', style = green\<rparr>,
        \<lparr>name = ''Button3'', style = blurple\<rparr>} \<and>
   distinct (children (step (step (step ComponentView_init (select [''Value1'']))
                (press \<lparr>name = ''Button3'', style = blurple\<rparr>)) (select [''Value2''])))"
proof -
  have r: "run ComponentView_init
     [select [''Value1''], press \<lparr>name = ''Button3'', style = blurple\<rparr>, select [''Value2'']]
     = Some (step (step (step ComponentView_init (select [''Value1'']))
                (press \<lparr>name = ''Button3'', style = blurple\<rparr>)) (select [''Value2'']))"
    by (simp add: handler_defs)
  have a: "attached_widgets (step (step (step ComponentView_init (select [''Value1'']))
                (press \<lparr>name = ''Button3'', style = blurple\<rparr>)) (select [''Value2'']))
     = {\<lparr>name = ''Button1'', style = red\<rparr>, \<lparr>name = ''Button2'', style = green\<rparr>,
        \<lparr>name = ''Button3'', style = blurple\<rparr>}"
    by (simp add: handler_defs)
  show ?thesis
    using r a C4_widgets_bounded_idempotent_monotone [OF r] by (simp del: step.simps)
qed

text \<open>
  C5. From any state that deliverable events reach from a fresh view, take the state
  right after a selection. Every sequence of presses delivered from there, of any of
  the attached buttons and with repeats, leaves a log whose length is the length right
  after the selection plus the number of presses.
\<close>

theorem C5_one_line_per_press:
  assumes "run ComponentView_init evs = Some v0"
    and "v = step v0 (select vs)"
    and "run v (map press bs) = Some v'"
  shows "length (text_log v') = length (text_log v) + length bs"
proof -
  have "view_ok v0"
    using view_ok_init assms(1) by (rule view_ok_run)
  then have ok: "view_ok v"
    unfolding assms(2) by (rule view_ok_step)
  have "text v \<noteq> []"
    unfolding assms(2) by (simp add: text_select del: step.simps)
  with ok show ?thesis
    using assms(3) by (rule presses_add_lines)
qed

text \<open>C5 for a selection on a fresh view followed by Button1, Button1, Button2.\<close>

theorem C5_witness:
  "run ComponentView_init [] = Some ComponentView_init \<and>
   run (step ComponentView_init (select [''Value1'']))
     (map press [\<lparr>name = ''Button1'', style = red\<rparr>, \<lparr>name = ''Button1'', style = red\<rparr>,
                 \<lparr>name = ''Button2'', style = green\<rparr>])
     = Some (step (step (step (step ComponentView_init (select [''Value1'']))
               (press \<lparr>name = ''Button1'', style = red\<rparr>))
               (press \<lparr>name = ''Button1'', style = red\<rparr>))
               (press \<lparr>name = ''Button2'', style = green\<rparr>)) \<and>
   length (text_log (step (step (step (step ComponentView_init (select [''Value1'']))
               (press \<lparr>name = ''Button1'', style = red\<rparr>))
               (press \<lparr>name = ''Button1'', style = red\<rparr>))
               (press \<lparr>name = ''Button2'', style = green\<rparr>)))
     = length (text_log (step ComponentView_init (select [''Value1'']))) + 3"
proof -
  have h1: "run ComponentView_init [] = Some ComponentView_init"
    by simp
  have h3: "run (step ComponentView_init (select [''Value1'']))
     (map press [\<lparr>name = ''Button1'', style = red\<rparr>, \<lparr>name = ''Button1'', style = red\<rparr>,
                 \<lparr>name = ''Button2'', style = green\<rparr>])
     = Some (step (step (step (step ComponentView_init (select [''Value1'']))
               (press \<lparr>name = ''Button1'', style = red\<rparr>))
               (press \<lparr>name = ''Button1'', style = red\<rparr>))
               (press \<lparr>name = ''Button2'', style = green\<rparr>))"
    by (simp add: handler_defs)
  show ?thesis
    using h1 h3 C5_one_line_per_press [OF h1 refl h3] by (simp del: step.simps)
qed

text \<open>
  C6. A modal submission after a press, for every text value: the text grows by a line
  feed, " Modal was called and value entered is " and the value; the children and the
  attached buttons are those from before the press. For a value without a line feed
  this is exactly one more line of the log, and the value is a part of that line.
\<close>

theorem C6_submit_after_press:
  "text (step (step v (press b)) (submit_modal val)) =
     text (step v (press b)) @ CHR 0x0A # '' Modal was called and value entered is '' @ val \<and>
   children (step (step v (press b)) (submit_modal val)) = children v \<and>
   attached_widgets (step (step v (press b)) (submit_modal val)) = attached_widgets v \<and>
   (CHR 0x0A \<notin> set val \<longrightarrow>
      text_log (step (step v (press b)) (submit_modal val)) =
        text_log (step v (press b)) @ ['' Modal was called and value entered is '' @ val] \<and>
      sublist val (last (text_log (step (step v (press b)) (submit_modal val)))))"
proof -
  let ?v1 = "step v (press b)"
  have t: "text ?v1 \<noteq> []"
    by (simp add: text_press del: step.simps)
  have l: "text_log (step ?v1 (submit_modal val)) =
             text_log ?v1 @ ['' Modal was called and value entered is '' @ val]"
    if "CHR 0x0A \<notin> set val"
  proof -
    have "CHR 0x0A \<notin> set ('' Modal was called and value entered is '' @ val)"
      using that by simp
    from split_lines_append_line [OF this, of "text ?v1"] t show ?thesis
      by (simp add: text_log_def text_submit del: step.simps)
  qed
  have s: "sublist val ('' Modal was called and value entered is '' @ val)"
    by (rule sublist_append_leftI)
  have c: "children (step ?v1 (submit_modal val)) = children v"
    by (simp add: children_press children_submit del: step.simps)
  show ?thesis
    using l s c text_submit [of ?v1 val] by (simp add: attached_widgets_def del: step.simps)
qed

text \<open>C6 for the value "hello" after a selection and a press of Button1.\<close>

theorem C6_witness:
  "CHR 0x0A \<notin> set ''hello'' \<and>
   text_log (step (step (step ComponentView_init (select [''Value1'']))
       (press \<lparr>name = ''Button1'', style = red\<rparr>)) (submit_modal ''hello''))
     = [''Value1 selected in select option'', '' Button1 was pressed!'',
        '' Modal was called and value entered is hello''] \<and>
   attached_widgets (step (step (step ComponentView_init (select [''Value1'']))
       (press \<lparr>name = ''Button1'', style = red\<rparr>)) (submit_modal ''hello''))
     = attached_widgets (step ComponentView_init (select [''Value1'']))"
proof -
  have h: "CHR 0x0A \<notin> set ''hello''"
    by simp
  have p: "text_log (step (step ComponentView_init (select [''Value1'']))
       (press \<lparr>name = ''Button1'', style = red\<rparr>))
     = [''Value1 selected in select option'', '' Button1 was pressed!'']"
    by (simp add: handler_defs)
  show ?thesis
    using h p C6_submit_after_press [of "step ComponentView_init (select [''Value1''])"
        "\<lparr>name = ''Button1'', style = red\<rparr>" "''hello''"]
    by (simp del: step.simps)
qed

text \<open>
  C6, as first stated for every text value: the value made of "a", a line feed and "b"
  adds two lines to the log, " Modal was called and value entered is a" and "b".
\<close>

theorem C6_multiline_value_counterexample:
  "text_log (step (step (step ComponentView_init (select [''Value1'']))
       (press \<lparr>name = ''Button1'', style = red\<rparr>))
       (submit_modal [CHR ''a'', CHR 0x0A, CHR ''b'']))
     = text_log (step (step ComponentView_init (select [''Value1'']))
       (press \<lparr>name = ''Button1'', style = red\<rparr>))
       @ ['' Modal was called and value entered is a'', ''b''] \<and>
   length (text_log (step (step (step ComponentView_init (select [''Value1'']))
       (press \<lparr>name = ''Button1'', style = red\<rparr>))
       (submit_modal [CHR ''a'', CHR 0x0A, CHR ''b''])))
     \<noteq> length (text_log (step (step ComponentView_init (select [''Value1'']))
       (press \<lparr>name = ''Button1'', style = red\<rparr>))) + 1"
  by (simp add: handler_defs)

section \<open>The sync command: the tally over an explicit list of guilds\<close>


text \<open>
  An exception of \<open>tree.sync\<close> that is not an \<open>HTTPException\<close> is not caught: it ends the
  loop and leaves the command, and the guilds after it are not attempted.
\<close>

lemma sync_other_exception_leaves:
  "sync \<lparr>tree_sync = (\<lambda>g p. (if g = Some 2 then Inl MissingApplicationID else Inr [''help''], p + 1)),
         copy_global_to = (\<lambda>g p. p), clear_commands = (\<lambda>g p. p)\<rparr> 7 [1, 2, 3] None (0 :: nat)
     = ([(Some 1, Inr [''help'']), (Some 2, Inl MissingApplicationID)],
        Inl MissingApplicationID, 2)"
  by (simp add: sync_def)

text \<open>Without guilds and without a spec the command syncs globally and reports the count.\<close>

lemma sync_without_guilds:
  "sync \<lparr>tree_sync = (\<lambda>g p. (Inr [''help'', ''start''], p + 1)),
         copy_global_to = (\<lambda>g p. p), clear_commands = (\<lambda>g p. p)\<rparr> 7 [] None (0 :: nat)
     = ([(None, Inr [''help'', ''start''])], Inr ''Synced 2 commands globally'', 1)"
  by (simp add: sync_def sync_once_def synced_message_def str_nat.simps digit_char_def)



section \<open>The configuration loader: the token gate\<close>

lemma assert_envs_exist_cases:
  "assert_envs_exist env =
     (case env ''TOKEN'' of
        None \<Rightarrow> Inl (MissingConfigurationException ''TOKEN/The Bot Token needs to be- defined'')
      | Some val \<Rightarrow> Inr ())"
  by (simp add: assert_envs_exist_def envs_def py_str_def split: option.splits)


text \<open>
  The loop keeps its branch for a value that the declared type refuses: an entry whose
  type raises \<open>ValueError\<close> yields the message about the required type.
\<close>

lemma assert_envs_type_branch:
  "assert_envs [(''PORT'', ''The Port'', \<lparr>type_repr = ''int'', raises = (\<lambda>v. Some ValueError)\<rparr>)]
     [''PORT'' \<mapsto> ''x''] =
   Inl (MissingConfigurationException ''PORT/The Port is not the required type of int'')"
  by simp





text \<open>
  C10. For the one declared entry, TOKEN of type \<open>str\<close>, the type raises nothing on any
  string, so the check never raises the exception with the message about the required
  type: its result is the exception about the missing variable when TOKEN is not set,
  and success otherwise.
\<close>

theorem C10_type_branch_unreachable:
  "raises py_str val = None \<and>
   assert_envs_exist env \<noteq>
     Inl (MissingConfigurationException
            (''TOKEN/The Bot Token is not the required type of '' @ type_repr py_str)) \<and>
   assert_envs_exist env =
     (case env ''TOKEN'' of
        None \<Rightarrow> Inl (MissingConfigurationException ''TOKEN/The Bot Token needs to be- defined'')
      | Some v \<Rightarrow> Inr ())"
  by (simp add: assert_envs_exist_cases py_str_def split: option.splits)

end
